theory Spec2Isabelle
  imports
    Complex_Main
    "HOL-Library.AList"
    "HOL-Library.Char_ord"
    "HOL-Library.List_Lexorder"
    "HOL-Library.Sublist"
begin

section \<open>OrganChain: the ledger contract and the matching algorithm\<close>

text \<open>
  The development embeds two parts of the repository.

  \<^item> The chaincode \<^verbatim>\<open>chaincode/organchain/organchain.go\<close>: the records it stores, the
    world state it reads and writes, and each of its transactions.
  \<^item> The matching algorithm of the web client (\<^verbatim>\<open>canReceiveFrom\<close> and the body of
    \<^verbatim>\<open>runMatching\<close>) and the hospital listing of \<^verbatim>\<open>backend/server.js\<close>.

  Strings are lists of characters read as code points below 256. Go's
  \<^verbatim>\<open>json.Marshal\<close> followed by \<^verbatim>\<open>json.Unmarshal\<close> gives such a string back unchanged,
  so a stored value is represented by the struct it was marshalled from.
\<close>

subsection \<open>Records of the chaincode\<close>

text \<open>
  Every field carries the name of its JSON key, prefixed by the initial of its struct.
  A Go \<^verbatim>\<open>[]string\<close> is either nil (\<open>None\<close>, marshalled as \<^verbatim>\<open>null\<close>) or a list.
\<close>

record Patient =
  p_id :: string
  p_nameHash :: string
  p_bloodType :: string
  p_hla :: string
  p_organNeeded :: string
  p_ipfsHash :: string
  p_status :: string
  p_hospitalId :: string
  p_docType :: string
  p_createdAt :: string

record Donor =
  d_id :: string
  d_name :: string
  d_email :: string
  d_phone :: string
  d_bloodType :: string
  d_hla :: string
  d_organsAvailable :: "string list option"
  d_ipfsHash :: string
  d_consentHash :: string
  d_verificationStatus :: string
  d_verifiedBy :: string
  d_docType :: string
  d_createdAt :: string

record Match =
  m_id :: string
  m_patientId :: string
  m_donorId :: string
  m_organType :: string
  m_hlaScore :: string
  m_status :: string
  m_docType :: string
  m_createdAt :: string
  m_approvedBy :: string

record Hospital =
  h_id :: string
  h_name :: string
  h_passwordHash :: string
  h_location :: string
  h_docType :: string
  h_createdAt :: string
  h_isActive :: bool

subsection \<open>Stored values and their decoding\<close>

text \<open>
  The chaincode writes nothing but the JSON of one of its four structs, so a value of
  the world state is one of four kinds. No transaction looks at \<^verbatim>\<open>docType\<close> before it
  decodes: \<^verbatim>\<open>json.Unmarshal\<close> copies the keys that the target struct also has and leaves
  every other field at its zero value. The keys shared between two structs all hold
  strings, so decoding a value of this world state never fails.
\<close>

datatype stored =
  PatientJSON Patient
| DonorJSON Donor
| MatchJSON Match
| HospitalJSON Hospital

fun unmarshalPatient :: "stored \<Rightarrow> Patient" where
  "unmarshalPatient (PatientJSON p) = p"
| "unmarshalPatient (DonorJSON d) =
     \<lparr>p_id = d_id d, p_nameHash = [], p_bloodType = d_bloodType d, p_hla = d_hla d,
      p_organNeeded = [], p_ipfsHash = d_ipfsHash d, p_status = [], p_hospitalId = [],
      p_docType = d_docType d, p_createdAt = d_createdAt d\<rparr>"
| "unmarshalPatient (MatchJSON m) =
     \<lparr>p_id = m_id m, p_nameHash = [], p_bloodType = [], p_hla = [],
      p_organNeeded = [], p_ipfsHash = [], p_status = m_status m, p_hospitalId = [],
      p_docType = m_docType m, p_createdAt = m_createdAt m\<rparr>"
| "unmarshalPatient (HospitalJSON h) =
     \<lparr>p_id = h_id h, p_nameHash = [], p_bloodType = [], p_hla = [],
      p_organNeeded = [], p_ipfsHash = [], p_status = [], p_hospitalId = [],
      p_docType = h_docType h, p_createdAt = h_createdAt h\<rparr>"

fun unmarshalDonor :: "stored \<Rightarrow> Donor" where
  "unmarshalDonor (DonorJSON d) = d"
| "unmarshalDonor (PatientJSON p) =
     \<lparr>d_id = p_id p, d_name = [], d_email = [], d_phone = [],
      d_bloodType = p_bloodType p, d_hla = p_hla p, d_organsAvailable = None,
      d_ipfsHash = p_ipfsHash p, d_consentHash = [], d_verificationStatus = [],
      d_verifiedBy = [], d_docType = p_docType p, d_createdAt = p_createdAt p\<rparr>"
| "unmarshalDonor (MatchJSON m) =
     \<lparr>d_id = m_id m, d_name = [], d_email = [], d_phone = [],
      d_bloodType = [], d_hla = [], d_organsAvailable = None,
      d_ipfsHash = [], d_consentHash = [], d_verificationStatus = [],
      d_verifiedBy = [], d_docType = m_docType m, d_createdAt = m_createdAt m\<rparr>"
| "unmarshalDonor (HospitalJSON h) =
     \<lparr>d_id = h_id h, d_name = h_name h, d_email = [], d_phone = [],
      d_bloodType = [], d_hla = [], d_organsAvailable = None,
      d_ipfsHash = [], d_consentHash = [], d_verificationStatus = [],
      d_verifiedBy = [], d_docType = h_docType h, d_createdAt = h_createdAt h\<rparr>"

fun unmarshalHospital :: "stored \<Rightarrow> Hospital" where
  "unmarshalHospital (HospitalJSON h) = h"
| "unmarshalHospital (PatientJSON p) =
     \<lparr>h_id = p_id p, h_name = [], h_passwordHash = [], h_location = [],
      h_docType = p_docType p, h_createdAt = p_createdAt p, h_isActive = False\<rparr>"
| "unmarshalHospital (DonorJSON d) =
     \<lparr>h_id = d_id d, h_name = d_name d, h_passwordHash = [], h_location = [],
      h_docType = d_docType d, h_createdAt = d_createdAt d, h_isActive = False\<rparr>"
| "unmarshalHospital (MatchJSON m) =
     \<lparr>h_id = m_id m, h_name = [], h_passwordHash = [], h_location = [],
      h_docType = m_docType m, h_createdAt = m_createdAt m, h_isActive = False\<rparr>"

subsection \<open>The world state\<close>

text \<open>
  The world state is a key-value store. The stub's calls are taken to succeed: a fault
  of the ledger is outside the contract, and so is a key that the ledger would refuse
  (the empty string). A transaction reads the state as it was when the transaction
  began; no chaincode function reads a key after it has written it. A range query
  returns the entries with \<open>startKey \<le> key < endKey\<close> in the order of their keys.
\<close>

type_synonym world_state = "(string \<times> stored) list"

definition GetState :: "world_state \<Rightarrow> string \<Rightarrow> stored option" where
  "GetState ws key = map_of ws key"

definition PutState :: "string \<Rightarrow> stored \<Rightarrow> world_state \<Rightarrow> world_state" where
  "PutState key v ws = AList.update key v ws"

definition DelState :: "string \<Rightarrow> world_state \<Rightarrow> world_state" where
  "DelState key ws = AList.delete key ws"

definition GetStateByRange :: "world_state \<Rightarrow> string \<Rightarrow> string \<Rightarrow> (string \<times> stored) list" where
  "GetStateByRange ws startKey endKey =
     sort_key fst (filter (\<lambda>kv. startKey \<le> fst kv \<and> fst kv < endKey) (AList.clearjunk ws))"

subsection \<open>Errors of the chaincode\<close>

datatype auth_failure = HospitalNotFound | HospitalNotActive | InvalidCredentials

datatype error =
  DoesNotExist string
| AlreadyExists string
| InvalidStatus
| ParseOrgansFailed
| AuthenticationFailed auth_failure

subsection \<open>Reads\<close>

definition RecordExists :: "world_state \<Rightarrow> string \<Rightarrow> bool" where
  "RecordExists ws ident = (GetState ws ident \<noteq> None)"

definition GetHospital :: "world_state \<Rightarrow> string \<Rightarrow> error + Hospital" where
  "GetHospital ws ident =
     (case GetState ws ident of
        None \<Rightarrow> Inl (DoesNotExist ident)
      | Some hospitalJSON \<Rightarrow> Inr (unmarshalHospital hospitalJSON))"

definition GetPatient :: "world_state \<Rightarrow> string \<Rightarrow> error + Patient" where
  "GetPatient ws ident =
     (case GetState ws ident of
        None \<Rightarrow> Inl (DoesNotExist ident)
      | Some patientJSON \<Rightarrow> Inr (unmarshalPatient patientJSON))"

text \<open>
  The organs of a donor as a list, nil read as empty: Go's \<^verbatim>\<open>range\<close> over the slice and
  the client's \<^verbatim>\<open>(donor.organsAvailable || [])\<close>.
\<close>

definition organsList :: "Donor \<Rightarrow> string list" where
  "organsList donor = (case d_organsAvailable donor of None \<Rightarrow> [] | Some organs \<Rightarrow> organs)"

text \<open>The guard "ensure organsAvailable is not nil" of \<^verbatim>\<open>GetDonor\<close> and \<^verbatim>\<open>GetAllDonors\<close>.\<close>

definition ensureOrgans :: "Donor \<Rightarrow> Donor" where
  "ensureOrgans donor =
     (if d_organsAvailable donor = None then donor\<lparr>d_organsAvailable := Some []\<rparr> else donor)"

definition GetDonor :: "world_state \<Rightarrow> string \<Rightarrow> error + Donor" where
  "GetDonor ws ident =
     (case GetState ws ident of
        None \<Rightarrow> Inl (DoesNotExist ident)
      | Some donorJSON \<Rightarrow> Inr (ensureOrgans (unmarshalDonor donorJSON)))"

definition GetAllDonors :: "world_state \<Rightarrow> Donor list" where
  "GetAllDonors ws =
     map (\<lambda>kv. ensureOrgans (unmarshalDonor (snd kv))) (GetStateByRange ws ''DON-'' ''DON-~'')"

definition GetAllPatients :: "world_state \<Rightarrow> Patient list" where
  "GetAllPatients ws =
     map (\<lambda>kv. unmarshalPatient (snd kv)) (GetStateByRange ws ''PAT-'' ''PAT-~'')"

definition GetAllHospitals :: "world_state \<Rightarrow> Hospital list" where
  "GetAllHospitals ws =
     map (\<lambda>kv. unmarshalHospital (snd kv)) (GetStateByRange ws ''HOSP-'' ''HOSP-~'')"

text \<open>
  \<^verbatim>\<open>AuthenticateHospital\<close> answers with the JSON of a Go map, which \<^verbatim>\<open>json.Marshal\<close>
  writes with its keys sorted; the answer is modelled as that list of key-value pairs.
\<close>

definition AuthenticateHospital ::
  "world_state \<Rightarrow> string \<Rightarrow> string \<Rightarrow> error + (string \<times> string) list" where
  "AuthenticateHospital ws ident passwordHash =
     (case GetHospital ws ident of
        Inl err \<Rightarrow> Inl (AuthenticationFailed HospitalNotFound)
      | Inr hospital \<Rightarrow>
          if \<not> h_isActive hospital then Inl (AuthenticationFailed HospitalNotActive)
          else if h_passwordHash hospital \<noteq> passwordHash
            then Inl (AuthenticationFailed InvalidCredentials)
          else Inr [(''id'', h_id hospital), (''location'', h_location hospital),
                    (''name'', h_name hospital)])"

subsection \<open>Transactions\<close>

text \<open>
  A transaction takes the world state and returns the new one, or an error; a
  transaction that returns an error commits nothing. The clock reading
  \<^verbatim>\<open>time.Now().Format(time.RFC3339)\<close> is the parameter \<open>now\<close>.
\<close>

definition seedPatients :: "string \<Rightarrow> Patient list" where
  "seedPatients now =
     [\<lparr>p_id = ''PAT-001'', p_nameHash = ''8f4343...'', p_bloodType = ''A+'',
       p_hla = ''A2, A24, B35, B44, DR1, DR4'', p_organNeeded = ''Kidney'',
       p_ipfsHash = ''QmXyZ...123'', p_status = ''WAITING'', p_hospitalId = ''HOSP-NY'',
       p_docType = ''patient'', p_createdAt = now\<rparr>,
      \<lparr>p_id = ''PAT-002'', p_nameHash = ''9a7121...'', p_bloodType = ''O-'',
       p_hla = ''A1, A3, B7, B8, DR15, DR17'', p_organNeeded = ''Liver'',
       p_ipfsHash = ''QmAbC...456'', p_status = ''WAITING'', p_hospitalId = ''HOSP-CA'',
       p_docType = ''patient'', p_createdAt = now\<rparr>]"

definition seedDonors :: "string \<Rightarrow> Donor list" where
  "seedDonors now =
     [\<lparr>d_id = ''DON-101'', d_name = [], d_email = [], d_phone = [], d_bloodType = ''O-'',
       d_hla = ''A2, A24, B35, B44, DR1, DR4'',
       d_organsAvailable = Some [''Kidney'', ''Liver''], d_ipfsHash = ''QmDon...999'',
       d_consentHash = ''0x123...signed'', d_verificationStatus = [], d_verifiedBy = [],
       d_docType = ''donor'', d_createdAt = now\<rparr>,
      \<lparr>d_id = ''DON-102'', d_name = [], d_email = [], d_phone = [], d_bloodType = ''AB+'',
       d_hla = ''A1, A2, B8, B44, DR3, DR4'',
       d_organsAvailable = Some [''Heart''], d_ipfsHash = ''QmDon...888'',
       d_consentHash = ''0x456...signed'', d_verificationStatus = [], d_verifiedBy = [],
       d_docType = ''donor'', d_createdAt = now\<rparr>]"

definition seedHospitals :: "string \<Rightarrow> Hospital list" where
  "seedHospitals now =
     [\<lparr>h_id = ''HOSP-APOLLO'', h_name = ''Apollo Hospital'',
       h_passwordHash = ''15da1cc6ebf7b7b13225c0d6d89e8cab4d40d4672c226618f1e74e5515685f2c'',
       h_location = ''Mumbai'', h_docType = ''hospital'', h_createdAt = now,
       h_isActive = True\<rparr>,
      \<lparr>h_id = ''HOSP-AIIMS'', h_name = ''AIIMS Delhi'',
       h_passwordHash = ''7810c7831b4fcefb7fb887bde3ef976b9d442d39216b155c84f1f67b38f49229'',
       h_location = ''New Delhi'', h_docType = ''hospital'', h_createdAt = now,
       h_isActive = True\<rparr>,
      \<lparr>h_id = ''HOSP-FORTIS'', h_name = ''Fortis Hospital'',
       h_passwordHash = ''72cceae42f682d82c0dc46bcd62c2cf85a95422b3d35eda8ef3e6c7d219e7af6'',
       h_location = ''Bangalore'', h_docType = ''hospital'', h_createdAt = now,
       h_isActive = True\<rparr>]"

definition InitLedger :: "string \<Rightarrow> world_state \<Rightarrow> error + world_state" where
  "InitLedger now ws =
     Inr (fold (\<lambda>donor. PutState (d_id donor) (DonorJSON donor)) (seedDonors now)
           (fold (\<lambda>patient. PutState (p_id patient) (PatientJSON patient)) (seedPatients now) ws))"

definition InitHospitals :: "string \<Rightarrow> world_state \<Rightarrow> error + world_state" where
  "InitHospitals now ws =
     Inr (fold (\<lambda>hospital. PutState (h_id hospital) (HospitalJSON hospital))
            (seedHospitals now) ws)"

text \<open>
  Each of the three loops of \<^verbatim>\<open>ClearLedger\<close> deletes the keys that its range query
  returned. The queries read the state as it was when the transaction began.
\<close>

definition clearRange :: "world_state \<Rightarrow> string \<Rightarrow> string \<Rightarrow> world_state \<Rightarrow> world_state" where
  "clearRange ws0 startKey endKey ws =
     fold (\<lambda>result. DelState (fst result)) (GetStateByRange ws0 startKey endKey) ws"

definition ClearLedger :: "world_state \<Rightarrow> error + world_state" where
  "ClearLedger ws =
     Inr (clearRange ws ''MATCH-'' ''MATCH-~''
           (clearRange ws ''DON-'' ''DON-~''
             (clearRange ws ''PAT-'' ''PAT-~'' ws)))"

definition CreatePatient ::
  "string \<Rightarrow> string \<Rightarrow> string \<Rightarrow> string \<Rightarrow> string \<Rightarrow> string \<Rightarrow> string \<Rightarrow> string
     \<Rightarrow> world_state \<Rightarrow> error + world_state" where
  "CreatePatient now ident nameHash bloodType hla organNeeded ipfsHash hospitalId ws =
     (if RecordExists ws ident then Inl (AlreadyExists ident)
      else Inr (PutState ident
             (PatientJSON
               \<lparr>p_id = ident, p_nameHash = nameHash, p_bloodType = bloodType, p_hla = hla,
                p_organNeeded = organNeeded, p_ipfsHash = ipfsHash, p_status = ''WAITING'',
                p_hospitalId = hospitalId, p_docType = ''patient'', p_createdAt = now\<rparr>) ws))"

text \<open>
  The argument \<^verbatim>\<open>organsAvailableJSON\<close> of \<^verbatim>\<open>CreateDonor\<close> is given by what
  \<^verbatim>\<open>json.Unmarshal\<close> into a \<^verbatim>\<open>[]string\<close> makes of it: an error, nil for \<^verbatim>\<open>null\<close>, or
  the list of the array's strings.
\<close>

datatype organs_json = NotAStringArray | JsonNull | JsonArray "string list"

fun unmarshalOrgans :: "organs_json \<Rightarrow> error + string list option" where
  "unmarshalOrgans NotAStringArray = Inl ParseOrgansFailed"
| "unmarshalOrgans JsonNull = Inr None"
| "unmarshalOrgans (JsonArray organs) = Inr (Some organs)"

definition CreateDonor ::
  "string \<Rightarrow> string \<Rightarrow> string \<Rightarrow> string \<Rightarrow> string \<Rightarrow> string \<Rightarrow> string \<Rightarrow> organs_json
     \<Rightarrow> string \<Rightarrow> string \<Rightarrow> world_state \<Rightarrow> error + world_state" where
  "CreateDonor now ident name email phone bloodType hla organsAvailableJSON ipfsHash consentHash ws =
     (if RecordExists ws ident then Inl (AlreadyExists ident)
      else case unmarshalOrgans organsAvailableJSON of
        Inl err \<Rightarrow> Inl err
      | Inr organsAvailable \<Rightarrow>
          Inr (PutState ident
            (DonorJSON
              \<lparr>d_id = ident, d_name = name, d_email = email, d_phone = phone,
               d_bloodType = bloodType, d_hla = hla, d_organsAvailable = organsAvailable,
               d_ipfsHash = ipfsHash, d_consentHash = consentHash,
               d_verificationStatus = ''PENDING_VERIFICATION'', d_verifiedBy = [],
               d_docType = ''donor'', d_createdAt = now\<rparr>) ws))"

definition VerifyDonor :: "string \<Rightarrow> string \<Rightarrow> string \<Rightarrow> world_state \<Rightarrow> error + world_state" where
  "VerifyDonor donorId hospitalId status ws =
     (case GetDonor ws donorId of
        Inl err \<Rightarrow> Inl err
      | Inr donor \<Rightarrow>
          if status \<noteq> ''VERIFIED'' \<and> status \<noteq> ''REJECTED'' then Inl InvalidStatus
          else Inr (PutState donorId
                 (DonorJSON (donor\<lparr>d_verificationStatus := status, d_verifiedBy := hospitalId\<rparr>))
                 ws))"

text \<open>
  The loop of \<^verbatim>\<open>UpdateDonorStatus\<close> starts from an empty, non-nil slice and appends every
  organ other than the one to remove.
\<close>

definition UpdateDonorStatus :: "string \<Rightarrow> string \<Rightarrow> world_state \<Rightarrow> error + world_state" where
  "UpdateDonorStatus ident organToRemove ws =
     (case GetDonor ws ident of
        Inl err \<Rightarrow> Inl err
      | Inr donor \<Rightarrow>
          let updatedOrgans =
                filter (\<lambda>organ. organ \<noteq> organToRemove) (organsList donor)
          in Inr (PutState ident (DonorJSON (donor\<lparr>d_organsAvailable := Some updatedOrgans\<rparr>)) ws))"

text \<open>
  \<^verbatim>\<open>CreateMatch\<close> reads the patient's key only. When a value is stored there it is
  decoded as a patient, marked \<^verbatim>\<open>MATCHED\<close> and written back; the match is written last,
  under the identifier the caller chose.
\<close>

definition CreateMatch ::
  "string \<Rightarrow> string \<Rightarrow> string \<Rightarrow> string \<Rightarrow> string \<Rightarrow> string \<Rightarrow> string
     \<Rightarrow> world_state \<Rightarrow> error + world_state" where
  "CreateMatch now ident patientId donorId organType hlaScore approvedBy ws =
     (let match = \<lparr>m_id = ident, m_patientId = patientId, m_donorId = donorId,
                   m_organType = organType, m_hlaScore = hlaScore, m_status = ''PENDING'',
                   m_docType = ''match'', m_createdAt = now, m_approvedBy = approvedBy\<rparr>;
          ws1 = (case GetState ws patientId of
                   None \<Rightarrow> ws
                 | Some patientJSON \<Rightarrow>
                     PutState patientId
                       (PatientJSON ((unmarshalPatient patientJSON)\<lparr>p_status := ''MATCHED''\<rparr>)) ws)
      in Inr (PutState ident (MatchJSON match) ws1))"

definition UpdatePatientStatus :: "string \<Rightarrow> string \<Rightarrow> world_state \<Rightarrow> error + world_state" where
  "UpdatePatientStatus ident status ws =
     (case GetPatient ws ident of
        Inl err \<Rightarrow> Inl err
      | Inr patient \<Rightarrow> Inr (PutState ident (PatientJSON (patient\<lparr>p_status := status\<rparr>)) ws))"

subsection \<open>The hospital listing of the backend\<close>

text \<open>
  The route \<^verbatim>\<open>GET /api/hospitals\<close> of \<^verbatim>\<open>backend/server.js\<close> evaluates
  \<^verbatim>\<open>GetAllHospitals\<close> and maps every hospital to a new object of four properties
  ("remove password hashes before sending"). An object is the list of its properties.
\<close>

datatype js_value = JString string | JBool bool

definition safeHospitals :: "Hospital list \<Rightarrow> (string \<times> js_value) list list" where
  "safeHospitals hospitals =
     map (\<lambda>h. [(''id'', JString (h_id h)), (''name'', JString (h_name h)),
               (''location'', JString (h_location h)), (''isActive'', JBool (h_isActive h))])
       hospitals"

definition api_hospitals :: "world_state \<Rightarrow> (string \<times> js_value) list list" where
  "api_hospitals ws = safeHospitals (GetAllHospitals ws)"

subsection \<open>Blood compatibility in the web client\<close>

text \<open>
  \<^verbatim>\<open>canReceiveFrom\<close> looks the recipient's type up in an object literal. A key of the
  literal gives its array; a name that the literal inherits from \<^verbatim>\<open>Object.prototype\<close>
  gives a function or an object without \<^verbatim>\<open>includes\<close>, and calling that raises a
  TypeError; any other name gives \<^verbatim>\<open>undefined\<close>, and the result is \<^verbatim>\<open>false\<close>.
\<close>

datatype js_error = TypeError

definition bloodMap :: "(string \<times> string list) list" where
  "bloodMap =
     [(''O-'', [''O-'']),
      (''O+'', [''O+'', ''O-'']),
      (''A-'', [''A-'', ''O-'']),
      (''A+'', [''A+'', ''A-'', ''O+'', ''O-'']),
      (''B-'', [''B-'', ''O-'']),
      (''B+'', [''B+'', ''B-'', ''O+'', ''O-'']),
      (''AB-'', [''AB-'', ''A-'', ''B-'', ''O-'']),
      (''AB+'', [''AB+'', ''AB-'', ''A+'', ''A-'', ''B+'', ''B-'', ''O+'', ''O-''])]"

text \<open>The property names of \<^verbatim>\<open>Object.prototype\<close> (ECMAScript, with its Annex B).\<close>

definition objectPrototypeKeys :: "string list" where
  "objectPrototypeKeys =
     [''constructor'', ''hasOwnProperty'', ''isPrototypeOf'', ''propertyIsEnumerable'',
      ''toLocaleString'', ''toString'', ''valueOf'', ''__proto__'', ''__defineGetter__'',
      ''__defineSetter__'', ''__lookupGetter__'', ''__lookupSetter__'']"

definition canReceiveFrom :: "string \<Rightarrow> string \<Rightarrow> js_error + bool" where
  "canReceiveFrom recipientType donorType =
     (case map_of bloodMap recipientType of
        Some donorTypes \<Rightarrow> Inr (donorType \<in> set donorTypes)
      | None \<Rightarrow>
          if recipientType \<in> set objectPrototypeKeys then Inl TypeError else Inr False)"

definition bloodTypes :: "string list" where
  "bloodTypes = [''O-'', ''O+'', ''A-'', ''A+'', ''B-'', ''B+'', ''AB-'', ''AB+'']"

subsection \<open>Strings and numbers of the web client\<close>

text \<open>
  \<^verbatim>\<open>s.split(',')\<close> cuts at every comma; it returns one token more than there are
  commas, so the empty string gives one token, itself empty. \<^verbatim>\<open>trim\<close> removes white
  space and line terminators at both ends: below code point 256 these are the
  characters 9 to 13, 32 and 160.
\<close>

fun splitOn :: "char \<Rightarrow> string \<Rightarrow> string \<Rightarrow> string list" where
  "splitOn sep token [] = [rev token]"
| "splitOn sep token (c # cs) =
     (if c = sep then rev token # splitOn sep [] cs else splitOn sep (c # token) cs)"

definition splitString :: "string \<Rightarrow> char \<Rightarrow> string list" where
  "splitString s sep = splitOn sep [] s"

definition isWhiteSpace :: "char \<Rightarrow> bool" where
  "isWhiteSpace c =
     (of_char c \<in> set [9, 10, 11, 12, 13, 32, 160 :: nat])"

definition trim :: "string \<Rightarrow> string" where
  "trim s = rev (dropWhile isWhiteSpace (rev (dropWhile isWhiteSpace s)))"

text \<open>
  A JavaScript number is a double. The model keeps \<^verbatim>\<open>NaN\<close> apart and takes every other
  number as the real it stands for, so the arithmetic below is exact. An operation with
  a \<^verbatim>\<open>NaN\<close> operand gives \<^verbatim>\<open>NaN\<close>.
\<close>

datatype number = NaN | Num real

fun num_map :: "(real \<Rightarrow> real) \<Rightarrow> number \<Rightarrow> number" where
  "num_map f NaN = NaN"
| "num_map f (Num x) = Num (f x)"

subsection \<open>The score of one donor in the matching algorithm\<close>

text \<open>
  \<^verbatim>\<open>runMatching(patient)\<close> maps every donor of the client's list to an entry. The
  function \<open>matchDonor\<close> is the body of that map. The client holds the patients and
  donors as the chaincode listed them. The entry's \<^verbatim>\<open>score\<close> and \<^verbatim>\<open>hlaScore\<close> are kept
  as numbers, before \<^verbatim>\<open>toFixed\<close> prints them. The clock \<^verbatim>\<open>new Date()\<close> is \<open>now\<close>, in
  milliseconds; \<open>parseDate\<close> is \<^verbatim>\<open>new Date(string)\<close>, with \<open>None\<close> for an invalid
  date.
\<close>

definition hlaTokens :: "string \<Rightarrow> string list" where
  "hlaTokens hla = map trim (splitString hla CHR '','')"

definition commonAntigens :: "string \<Rightarrow> string \<Rightarrow> string list" where
  "commonAntigens patientHla donorHla =
     filter (\<lambda>antigen. antigen \<in> set (hlaTokens donorHla)) (hlaTokens patientHla)"

definition hlaRawScore :: "string \<Rightarrow> string \<Rightarrow> real" where
  "hlaRawScore patientHla donorHla =
     (real (length (commonAntigens patientHla donorHla))
        / real (max (length (hlaTokens patientHla)) 1)) * 100"

definition daysWaiting :: "int \<Rightarrow> int option \<Rightarrow> number" where
  "daysWaiting now createdAt =
     (case createdAt of
        None \<Rightarrow> NaN
      | Some t \<Rightarrow> Num (real_of_int (now - t) / (1000 * 60 * 60 * 24)))"

definition waitlistScore :: "number \<Rightarrow> number" where
  "waitlistScore days = num_map (\<lambda>x. min (x / 30) 1 * 100) days"

record match_entry =
  e_donorId :: string
  e_bloodType :: string
  e_score :: number
  e_hlaScore :: real
  e_daysWaiting :: number
  e_common :: nat
  e_compatible :: bool
  e_reason :: string

definition matchDonor ::
  "(string \<Rightarrow> int option) \<Rightarrow> int \<Rightarrow> Patient \<Rightarrow> Donor \<Rightarrow> js_error + match_entry" where
  "matchDonor parseDate now patient donor =
     (let isVerified = (d_verificationStatus donor = ''VERIFIED'') in
      case canReceiveFrom (p_bloodType patient) (d_bloodType donor) of
        Inl err \<Rightarrow> Inl err
      | Inr isBloodCompatible \<Rightarrow>
          let isExactBloodMatch = (p_bloodType patient = d_bloodType donor);
              isOrganCompatible = (p_organNeeded patient \<in> set (organsList donor));
              hla = hlaRawScore (p_hla patient) (d_hla donor);
              days = daysWaiting now (parseDate (p_createdAt patient));
              totalScore =
                (if isBloodCompatible \<and> isOrganCompatible \<and> isVerified
                 then num_map (\<lambda>w. hla * 0.6 + w * 0.3 + (if isExactBloodMatch then 10 else 0))
                        (waitlistScore days)
                 else Num 0)
          in Inr \<lparr>e_donorId = d_id donor, e_bloodType = d_bloodType donor,
                  e_score = totalScore, e_hlaScore = hla,
                  e_daysWaiting = num_map (\<lambda>x. of_int \<lfloor>x\<rfloor>) days,
                  e_common = length (commonAntigens (p_hla patient) (d_hla donor)),
                  e_compatible = (isBloodCompatible \<and> isOrganCompatible \<and> isVerified),
                  e_reason =
                    (if \<not> isVerified then ''Donor Not Verified''
                     else if \<not> isBloodCompatible then ''Blood Mismatch''
                     else if \<not> isOrganCompatible then ''Organ Mismatch''
                     else ''Compatible'')\<rparr>)"

subsection \<open>Submitting a transaction\<close>

text \<open>
  The backend reaches the ledger through \<^verbatim>\<open>contract.submitTransaction(name, args)\<close>.
  These are the transactions it submits, each with the arguments of its chaincode
  function.
\<close>

datatype transaction =
  TxInitLedger
| TxInitHospitals
| TxClearLedger
| TxCreatePatient string string string string string string string
| TxCreateDonor string string string string string string organs_json string string
| TxVerifyDonor string string string
| TxUpdateDonorStatus string string
| TxCreateMatch string string string string string string
| TxUpdatePatientStatus string string

fun submitTransaction :: "string \<Rightarrow> transaction \<Rightarrow> world_state \<Rightarrow> error + world_state" where
  "submitTransaction now TxInitLedger ws = InitLedger now ws"
| "submitTransaction now TxInitHospitals ws = InitHospitals now ws"
| "submitTransaction now TxClearLedger ws = ClearLedger ws"
| "submitTransaction now (TxCreatePatient ident nameHash bloodType hla organNeeded ipfsHash hospitalId) ws =
     CreatePatient now ident nameHash bloodType hla organNeeded ipfsHash hospitalId ws"
| "submitTransaction now (TxCreateDonor ident name email phone bloodType hla organs ipfsHash consentHash) ws =
     CreateDonor now ident name email phone bloodType hla organs ipfsHash consentHash ws"
| "submitTransaction now (TxVerifyDonor donorId hospitalId status) ws =
     VerifyDonor donorId hospitalId status ws"
| "submitTransaction now (TxUpdateDonorStatus ident organToRemove) ws =
     UpdateDonorStatus ident organToRemove ws"
| "submitTransaction now (TxCreateMatch ident patientId donorId organType hlaScore approvedBy) ws =
     CreateMatch now ident patientId donorId organType hlaScore approvedBy ws"
| "submitTransaction now (TxUpdatePatientStatus ident status) ws =
     UpdatePatientStatus ident status ws"

subsection \<open>Example records and ledgers\<close>

definition waitingPatient :: Patient where
  "waitingPatient =
     \<lparr>p_id = ''PAT-1'', p_nameHash = ''8f43'', p_bloodType = ''A+'', p_hla = ''A2, B35'',
      p_organNeeded = ''Kidney'', p_ipfsHash = ''Qm1'', p_status = ''WAITING'',
      p_hospitalId = ''HOSP-APOLLO'', p_docType = ''patient'',
      p_createdAt = ''2024-01-01T00:00:00Z''\<rparr>"

definition pendingDonor :: Donor where
  "pendingDonor =
     \<lparr>d_id = ''DON-1'', d_name = ''Asha'', d_email = [], d_phone = [], d_bloodType = ''O-'',
      d_hla = ''A2, B35'', d_organsAvailable = Some [''Kidney''], d_ipfsHash = ''Qm2'',
      d_consentHash = ''0x12'', d_verificationStatus = ''PENDING_VERIFICATION'',
      d_verifiedBy = [], d_docType = ''donor'', d_createdAt = ''2024-01-02T00:00:00Z''\<rparr>"

definition pendingLedger :: world_state where
  "pendingLedger = [(''PAT-1'', PatientJSON waitingPatient), (''DON-1'', DonorJSON pendingDonor)]"

definition firstMatch :: Match where
  "firstMatch =
     \<lparr>m_id = ''MATCH-1'', m_patientId = ''PAT-1'', m_donorId = ''DON-1'',
      m_organType = ''Kidney'', m_hlaScore = ''90.0'', m_status = ''PENDING'',
      m_docType = ''match'', m_createdAt = ''2024-02-01T00:00:00Z'',
      m_approvedBy = ''HOSP-APOLLO''\<rparr>"

definition secondMatch :: Match where
  "secondMatch =
     \<lparr>m_id = ''MATCH-1'', m_patientId = ''PAT-2'', m_donorId = ''DON-2'',
      m_organType = ''Liver'', m_hlaScore = ''40.0'', m_status = ''PENDING'',
      m_docType = ''match'', m_createdAt = ''2024-02-02T00:00:00Z'',
      m_approvedBy = ''HOSP-AIIMS''\<rparr>"

definition apollo :: Hospital where
  "apollo =
     \<lparr>h_id = ''HOSP-APOLLO'', h_name = ''Apollo Hospital'',
      h_passwordHash = ''15da1cc6ebf7b7b13225c0d6d89e8cab4d40d4672c226618f1e74e5515685f2c'',
      h_location = ''Mumbai'', h_docType = ''hospital'',
      h_createdAt = ''2024-01-01T00:00:00Z'', h_isActive = True\<rparr>"

definition twiceKidneyDonor :: Donor where
  "twiceKidneyDonor =
     \<lparr>d_id = ''DON-7'', d_name = ''Ravi'', d_email = [], d_phone = [], d_bloodType = ''B+'',
      d_hla = ''A1'', d_organsAvailable = Some [''Kidney'', ''Kidney''], d_ipfsHash = ''Qm7'',
      d_consentHash = ''0x77'', d_verificationStatus = ''PENDING_VERIFICATION'',
      d_verifiedBy = [], d_docType = ''donor'', d_createdAt = ''2024-03-01T00:00:00Z''\<rparr>"

definition nilDonor :: Donor where
  "nilDonor =
     \<lparr>d_id = ''DON-3'', d_name = ''Meera'', d_email = [], d_phone = [], d_bloodType = ''A-'',
      d_hla = ''B7'', d_organsAvailable = None, d_ipfsHash = ''Qm3'',
      d_consentHash = ''0x33'', d_verificationStatus = ''PENDING_VERIFICATION'',
      d_verifiedBy = [], d_docType = ''donor'', d_createdAt = ''2024-03-05T00:00:00Z''\<rparr>"

definition nilLedger :: world_state where
  "nilLedger = [(''DON-3'', DonorJSON nilDonor)]"

definition verifiedDonor :: Donor where
  "verifiedDonor =
     pendingDonor\<lparr>d_verificationStatus := ''VERIFIED'', d_verifiedBy := ''HOSP-APOLLO''\<rparr>"

definition matchedLedger :: world_state where
  "matchedLedger =
     [(''PAT-1'', PatientJSON (waitingPatient\<lparr>p_status := ''MATCHED''\<rparr>)),
      (''DON-1'', DonorJSON pendingDonor),
      (''MATCH-1'', MatchJSON firstMatch)]"

definition closedClinic :: Hospital where
  "closedClinic =
     \<lparr>h_id = ''HOSP-CLOSED'', h_name = ''Closed Clinic'', h_passwordHash = ''c10sed'',
      h_location = ''Pune'', h_docType = ''hospital'',
      h_createdAt = ''2024-01-01T00:00:00Z'', h_isActive = False\<rparr>"

definition apolloLedger :: world_state where
  "apolloLedger =
     [(''HOSP-CLOSED'', HospitalJSON closedClinic), (''HOSP-APOLLO'', HospitalJSON apollo)]"

section \<open>Properties\<close>

subsection \<open>The world state\<close>

lemma GetState_PutState:
  "GetState (PutState key v ws) k = (if k = key then Some v else GetState ws k)"
  by (simp add: GetState_def PutState_def update_conv')

lemma PutState_twice: "PutState key v (PutState key v' ws) = PutState key v ws"
  by (simp add: PutState_def)

lemma ensureOrgans_Some: "\<exists>organs. d_organsAvailable (ensureOrgans donor) = Some organs"
  by (cases "d_organsAvailable donor") (simp_all add: ensureOrgans_def)

subsection \<open>Blood compatibility\<close>

text \<open>
  Claim C8. Over the eight ABO/Rh types, \<open>canReceiveFrom\<close> answers true for an O-
  donor with every recipient type, for an AB+ recipient with every donor type, and for
  every type with itself.
\<close>

theorem canReceiveFrom_universal:
  "(\<forall>recipient \<in> set bloodTypes. canReceiveFrom recipient ''O-'' = Inr True)
   \<and> (\<forall>donor \<in> set bloodTypes. canReceiveFrom ''AB+'' donor = Inr True)
   \<and> (\<forall>t \<in> set bloodTypes. canReceiveFrom t t = Inr True)"
  by (simp add: bloodTypes_def canReceiveFrom_def bloodMap_def)

theorem canReceiveFrom_universal_witness:
  "''B+'' \<in> set bloodTypes
   \<and> canReceiveFrom ''B+'' ''O-'' = Inr True
   \<and> canReceiveFrom ''AB+'' ''B+'' = Inr True
   \<and> canReceiveFrom ''B+'' ''B+'' = Inr True"
proof -
  have member: "''B+'' \<in> set bloodTypes"
    by (simp add: bloodTypes_def)
  with canReceiveFrom_universal show ?thesis
    by blast
qed

subsection \<open>Reading donors\<close>

text \<open>
  Claim C10. A read of a donor never returns a nil organ list. \<open>GetDonor\<close> answers
  for every stored value, and its donor has a list of organs; so has every donor of
  \<open>GetAllDonors\<close>. Where the stored value has no organ list (null or missing), both
  return the donor with the empty list.
\<close>

theorem donor_reads_never_nil:
  "(GetState ws ident = Some v \<longrightarrow> (\<exists>donor. GetDonor ws ident = Inr donor))
   \<and> (GetDonor ws ident = Inr donor \<longrightarrow> d_organsAvailable donor \<noteq> None)
   \<and> (\<forall>donor \<in> set (GetAllDonors ws). d_organsAvailable donor \<noteq> None)
   \<and> (GetState ws ident = Some v \<and> d_organsAvailable (unmarshalDonor v) = None \<longrightarrow>
        GetDonor ws ident = Inr ((unmarshalDonor v)\<lparr>d_organsAvailable := Some []\<rparr>))
   \<and> ((key, v) \<in> set (GetStateByRange ws ''DON-'' ''DON-~'')
         \<and> d_organsAvailable (unmarshalDonor v) = None \<longrightarrow>
        (unmarshalDonor v)\<lparr>d_organsAvailable := Some []\<rparr> \<in> set (GetAllDonors ws))"
proof (intro conjI impI ballI)
  assume "GetState ws ident = Some v"
  then show "\<exists>donor. GetDonor ws ident = Inr donor"
    by (simp add: GetDonor_def)
next
  assume "GetDonor ws ident = Inr donor"
  then show "d_organsAvailable donor \<noteq> None"
    by (auto simp add: GetDonor_def ensureOrgans_Some split: option.splits)
next
  fix donor assume "donor \<in> set (GetAllDonors ws)"
  then show "d_organsAvailable donor \<noteq> None"
    by (auto simp add: GetAllDonors_def ensureOrgans_Some)
next
  assume "GetState ws ident = Some v \<and> d_organsAvailable (unmarshalDonor v) = None"
  then show "GetDonor ws ident = Inr ((unmarshalDonor v)\<lparr>d_organsAvailable := Some []\<rparr>)"
    by (simp add: GetDonor_def ensureOrgans_def)
next
  assume listed: "(key, v) \<in> set (GetStateByRange ws ''DON-'' ''DON-~'')
         \<and> d_organsAvailable (unmarshalDonor v) = None"
  then have "ensureOrgans (unmarshalDonor (snd (key, v))) \<in> set (GetAllDonors ws)"
    unfolding GetAllDonors_def by (metis (no_types, lifting) image_eqI list.set_map)
  with listed show "(unmarshalDonor v)\<lparr>d_organsAvailable := Some []\<rparr> \<in> set (GetAllDonors ws)"
    by (simp add: ensureOrgans_def)
qed

theorem donor_reads_never_nil_witness:
  "GetState nilLedger ''DON-3'' = Some (DonorJSON nilDonor)
   \<and> d_organsAvailable (unmarshalDonor (DonorJSON nilDonor)) = None
   \<and> (''DON-3'', DonorJSON nilDonor) \<in> set (GetStateByRange nilLedger ''DON-'' ''DON-~'')
   \<and> GetDonor nilLedger ''DON-3'' = Inr (nilDonor\<lparr>d_organsAvailable := Some []\<rparr>)
   \<and> nilDonor\<lparr>d_organsAvailable := Some []\<rparr> \<in> set (GetAllDonors nilLedger)
   \<and> d_organsAvailable (nilDonor\<lparr>d_organsAvailable := Some []\<rparr>) \<noteq> None"
proof -
  have stored: "GetState nilLedger ''DON-3'' = Some (DonorJSON nilDonor)"
    by (simp add: GetState_def nilLedger_def)
  have nil: "d_organsAvailable (unmarshalDonor (DonorJSON nilDonor)) = None"
    by (simp add: nilDonor_def)
  have listed: "(''DON-3'', DonorJSON nilDonor) \<in> set (GetStateByRange nilLedger ''DON-'' ''DON-~'')"
    by (simp add: GetStateByRange_def nilLedger_def)
  from stored nil listed
    donor_reads_never_nil [of nilLedger "''DON-3''" "DonorJSON nilDonor"
      "nilDonor\<lparr>d_organsAvailable := Some []\<rparr>" "''DON-3''"]
  show ?thesis
    by simp
qed

subsection \<open>Removing an organ\<close>

text \<open>
  Claim C9. For a donor read at a key, \<open>UpdateDonorStatus\<close> succeeds and leaves there
  the same donor with every occurrence of the organ removed from its list, no other
  field changed. A second removal of the same organ returns the very same world state,
  and removing an organ that is not in the list leaves the donor as read.
\<close>

theorem UpdateDonorStatus_idempotent:
  assumes "GetDonor ws ident = Inr donor"
  shows "\<exists>ws'. UpdateDonorStatus ident organ ws = Inr ws'
     \<and> GetDonor ws' ident =
          Inr (donor\<lparr>d_organsAvailable := Some (removeAll organ (organsList donor))\<rparr>)
     \<and> UpdateDonorStatus ident organ ws' = Inr ws'
     \<and> (organ \<notin> set (organsList donor) \<longrightarrow> GetDonor ws' ident = Inr donor)"
proof -
  define donor' where
    "donor' = donor\<lparr>d_organsAvailable := Some (removeAll organ (organsList donor))\<rparr>"
  define ws' where "ws' = PutState ident (DonorJSON donor') ws"
  have kept: "filter (\<lambda>x. x \<noteq> organ) xs = removeAll organ xs" for xs :: "string list"
    by (induction xs) auto
  have some: "d_organsAvailable donor = Some (organsList donor)"
    using assms
    by (auto simp add: GetDonor_def ensureOrgans_def organsList_def split: option.splits if_splits)
  have once: "UpdateDonorStatus ident organ ws = Inr ws'"
    using assms by (simp add: UpdateDonorStatus_def ws'_def donor'_def kept)
  have read: "GetDonor ws' ident = Inr donor'"
    by (simp add: GetDonor_def ws'_def GetState_PutState ensureOrgans_def donor'_def)
  have twice: "UpdateDonorStatus ident organ ws' = Inr ws'"
    using read
    by (simp add: UpdateDonorStatus_def kept ws'_def PutState_twice donor'_def organsList_def)
  have same: "organ \<notin> set (organsList donor) \<Longrightarrow> donor' = donor"
    using some by (simp add: donor'_def)
  from once read twice same show ?thesis
    unfolding donor'_def by auto
qed

theorem UpdateDonorStatus_idempotent_witness:
  "GetDonor pendingLedger ''DON-1'' = Inr pendingDonor
   \<and> ''Liver'' \<notin> set (organsList pendingDonor)
   \<and> (\<exists>ws'. UpdateDonorStatus ''DON-1'' ''Liver'' pendingLedger = Inr ws'
          \<and> UpdateDonorStatus ''DON-1'' ''Liver'' ws' = Inr ws'
          \<and> GetDonor ws' ''DON-1'' = Inr pendingDonor)
   \<and> (\<exists>ws'. UpdateDonorStatus ''DON-1'' ''Kidney'' pendingLedger = Inr ws'
          \<and> UpdateDonorStatus ''DON-1'' ''Kidney'' ws' = Inr ws'
          \<and> GetDonor ws' ''DON-1'' = Inr (pendingDonor\<lparr>d_organsAvailable := Some []\<rparr>))"
proof -
  have read: "GetDonor pendingLedger ''DON-1'' = Inr pendingDonor"
    by (simp add: GetDonor_def GetState_def pendingLedger_def ensureOrgans_def pendingDonor_def)
  have absent: "''Liver'' \<notin> set (organsList pendingDonor)"
    by (simp add: organsList_def pendingDonor_def)
  have kidney: "removeAll ''Kidney'' (organsList pendingDonor) = []"
    by (simp add: organsList_def pendingDonor_def)
  from UpdateDonorStatus_idempotent [OF read, of "''Liver''"] absent
  have liver: "\<exists>ws'. UpdateDonorStatus ''DON-1'' ''Liver'' pendingLedger = Inr ws'
          \<and> UpdateDonorStatus ''DON-1'' ''Liver'' ws' = Inr ws'
          \<and> GetDonor ws' ''DON-1'' = Inr pendingDonor"
    by blast
  from UpdateDonorStatus_idempotent [OF read, of "''Kidney''"] kidney
  have "\<exists>ws'. UpdateDonorStatus ''DON-1'' ''Kidney'' pendingLedger = Inr ws'
          \<and> UpdateDonorStatus ''DON-1'' ''Kidney'' ws' = Inr ws'
          \<and> GetDonor ws' ''DON-1'' = Inr (pendingDonor\<lparr>d_organsAvailable := Some []\<rparr>)"
    by auto
  with read absent liver show ?thesis
    by (intro conjI)
qed

subsection \<open>The organs of a donor across transactions\<close>

lemma GetState_DelState:
  "GetState (DelState key ws) k = (if k = key then None else GetState ws k)"
  by (simp add: GetState_def DelState_def delete_conv')

lemma GetState_fold_DelState:
  "GetState (fold (\<lambda>result. DelState (fst result)) results ws) k = None
   \<or> GetState (fold (\<lambda>result. DelState (fst result)) results ws) k = GetState ws k"
proof (induction results arbitrary: ws)
  case Nil
  then show ?case by simp
next
  case (Cons r results)
  from Cons.IH [of "DelState (fst r) ws"] show ?case
    by (auto simp add: GetState_DelState split: if_splits)
qed

lemma GetState_clearRange:
  "GetState (clearRange ws0 startKey endKey ws) k = None
   \<or> GetState (clearRange ws0 startKey endKey ws) k = GetState ws k"
  unfolding clearRange_def by (rule GetState_fold_DelState)

lemma GetState_ClearLedger:
  assumes "ClearLedger ws = Inr ws'"
  shows "GetState ws' k = None \<or> GetState ws' k = GetState ws k"
proof -
  let ?patients = "clearRange ws ''PAT-'' ''PAT-~'' ws"
  let ?donors = "clearRange ws ''DON-'' ''DON-~'' ?patients"
  have ws': "ws' = clearRange ws ''MATCH-'' ''MATCH-~'' ?donors"
    using assms by (simp add: ClearLedger_def)
  from GetState_clearRange [of ws "''PAT-''" "''PAT-~''" ws k]
       GetState_clearRange [of ws "''DON-''" "''DON-~''" ?patients k]
       GetState_clearRange [of ws "''MATCH-''" "''MATCH-~''" ?donors k]
  show ?thesis
    unfolding ws' by metis
qed

lemma GetState_fold_hospitals:
  "GetState (fold (\<lambda>hospital. PutState (h_id hospital) (HospitalJSON hospital)) hospitals ws) k
     = Some v \<Longrightarrow>
   (\<exists>h. v = HospitalJSON h) \<or> GetState ws k = Some v"
proof (induction hospitals arbitrary: ws)
  case Nil
  then show ?case by simp
next
  case (Cons h hospitals)
  from Cons.IH [OF Cons.prems [simplified]] show ?case
    by (auto simp add: GetState_PutState split: if_splits)
qed

lemma organsList_ensureOrgans: "organsList (ensureOrgans donor) = organsList donor"
  by (simp add: ensureOrgans_def organsList_def)

lemma GetDonor_organs:
  "GetDonor ws key = Inr donor \<Longrightarrow>
   \<exists>v. GetState ws key = Some v \<and> organsList donor = organsList (unmarshalDonor v)"
  by (auto simp add: GetDonor_def organsList_ensureOrgans split: option.splits)

text \<open>
  What a transaction other than \<open>InitLedger\<close> leaves under a key decodes to a donor
  whose organs are a subsequence of those decoded there before.
\<close>

lemma stored_organs_shrink:
  assumes "submitTransaction now tx ws = Inr ws'" and "tx \<noteq> TxInitLedger"
    and "GetState ws key = Some v" and "GetState ws' key = Some v'"
  shows "subseq (organsList (unmarshalDonor v')) (organsList (unmarshalDonor v))"
proof (cases tx)
  case TxInitLedger
  with assms show ?thesis by simp
next
  case TxInitHospitals
  with assms have "(\<exists>h. v' = HospitalJSON h) \<or> GetState ws key = Some v'"
    by (auto simp add: InitHospitals_def dest: GetState_fold_hospitals)
  with assms show ?thesis
    by (auto simp add: organsList_def)
next
  case TxClearLedger
  with assms GetState_ClearLedger [of ws ws' key] show ?thesis
    by auto
next
  case (TxCreatePatient ident nameHash bloodType hla organNeeded ipfsHash hospitalId)
  with assms show ?thesis
    by (auto simp add: CreatePatient_def RecordExists_def GetState_PutState split: if_splits)
next
  case (TxCreateDonor ident name email phone bloodType hla organs ipfsHash consentHash)
  with assms show ?thesis
    by (auto simp add: CreateDonor_def RecordExists_def GetState_PutState
          split: if_splits sum.splits)
next
  case (TxVerifyDonor donorId hospitalId status)
  with assms show ?thesis
    by (auto simp add: VerifyDonor_def GetDonor_def GetState_PutState organsList_ensureOrgans
          organsList_def [of "_\<lparr>d_verificationStatus := _, d_verifiedBy := _\<rparr>"]
          organsList_def [of "ensureOrgans _", symmetric]
          split: if_splits sum.splits option.splits)
next
  case (TxUpdateDonorStatus ident organToRemove)
  with assms show ?thesis
    by (auto simp add: UpdateDonorStatus_def GetDonor_def GetState_PutState organsList_ensureOrgans
          organsList_def [of "_\<lparr>d_organsAvailable := _\<rparr>"]
          split: if_splits sum.splits option.splits)
next
  case (TxCreateMatch ident patientId donorId organType hlaScore approvedBy)
  with assms show ?thesis
    by (auto simp add: CreateMatch_def Let_def GetState_PutState organsList_def
          split: if_splits option.splits)
next
  case (TxUpdatePatientStatus ident status)
  with assms show ?thesis
    by (auto simp add: UpdatePatientStatus_def GetPatient_def GetState_PutState organsList_def
          split: if_splits option.splits sum.splits)
qed

text \<open>
  \<open>InitLedger\<close> writes its seed donors whatever the keys held: the donor read at
  \<^verbatim>\<open>DON-101\<close> afterwards offers a kidney and a liver again.
\<close>

lemma InitLedger_reseeds:
  "\<exists>ws'. InitLedger now ws = Inr ws'
     \<and> map_sum (\<lambda>err. err) organsList (GetDonor ws' ''DON-101'') = Inr [''Kidney'', ''Liver'']"
  by (simp add: InitLedger_def seedDonors_def seedPatients_def GetDonor_def GetState_PutState
        ensureOrgans_def organsList_def)

text \<open>
  Claim C5, as the code has it. \<open>CreateDonor\<close> stores the list it is given, so a donor
  can be created with an organ listed twice.
\<close>

theorem CreateDonor_keeps_duplicates:
  "CreateDonor ''2024-03-01T00:00:00Z'' ''DON-7'' ''Ravi'' [] [] ''B+'' ''A1''
     (JsonArray [''Kidney'', ''Kidney'']) ''Qm7'' ''0x77'' [] = Inr [(''DON-7'', DonorJSON twiceKidneyDonor)]
   \<and> GetDonor [(''DON-7'', DonorJSON twiceKidneyDonor)] ''DON-7'' = Inr twiceKidneyDonor
   \<and> \<not> distinct (organsList twiceKidneyDonor)"
  by (simp add: CreateDonor_def RecordExists_def GetState_def PutState_def GetDonor_def
        ensureOrgans_def organsList_def twiceKidneyDonor_def)

text \<open>
  Claim C5, amended. Every transaction other than \<open>InitLedger\<close> leaves the organs of
  the donor read at a key a subsequence of the organs read there before: entries are
  removed or kept, never added, and a list without duplicates stays without duplicates.
\<close>

theorem organs_only_shrink:
  assumes "submitTransaction now tx ws = Inr ws'" and "tx \<noteq> TxInitLedger"
    and "GetDonor ws key = Inr donor" and "GetDonor ws' key = Inr donor'"
  shows "subseq (organsList donor') (organsList donor)
         \<and> (distinct (organsList donor) \<longrightarrow> distinct (organsList donor'))"
proof -
  from assms(3) obtain v where v: "GetState ws key = Some v"
    and organs: "organsList donor = organsList (unmarshalDonor v)"
    by (auto dest: GetDonor_organs)
  from assms(4) obtain v' where v': "GetState ws' key = Some v'"
    and organs': "organsList donor' = organsList (unmarshalDonor v')"
    by (auto dest: GetDonor_organs)
  from stored_organs_shrink [OF assms(1,2) v v'] organs organs'
  have shrink: "subseq (organsList donor') (organsList donor)"
    by simp
  then have "distinct (organsList donor) \<longrightarrow> distinct (organsList donor')"
    using subseqs_distinctD [of "organsList donor'" "organsList donor"]
    by (simp add: set_subseqs_eq)
  with shrink show ?thesis
    by simp
qed

theorem organs_only_shrink_witness:
  "submitTransaction ''2024-04-01T00:00:00Z'' (TxUpdateDonorStatus ''DON-1'' ''Kidney'') pendingLedger
     = Inr [(''PAT-1'', PatientJSON waitingPatient),
            (''DON-1'', DonorJSON (pendingDonor\<lparr>d_organsAvailable := Some []\<rparr>))]
   \<and> TxUpdateDonorStatus ''DON-1'' ''Kidney'' \<noteq> TxInitLedger
   \<and> GetDonor pendingLedger ''DON-1'' = Inr pendingDonor
   \<and> GetDonor [(''PAT-1'', PatientJSON waitingPatient),
               (''DON-1'', DonorJSON (pendingDonor\<lparr>d_organsAvailable := Some []\<rparr>))] ''DON-1''
       = Inr (pendingDonor\<lparr>d_organsAvailable := Some []\<rparr>)
   \<and> distinct (organsList pendingDonor)
   \<and> subseq (organsList (pendingDonor\<lparr>d_organsAvailable := Some []\<rparr>)) (organsList pendingDonor)
   \<and> distinct (organsList (pendingDonor\<lparr>d_organsAvailable := Some []\<rparr>))"
proof -
  let ?after = "[(''PAT-1'', PatientJSON waitingPatient),
                 (''DON-1'', DonorJSON (pendingDonor\<lparr>d_organsAvailable := Some []\<rparr>))]"
  have before: "GetDonor pendingLedger ''DON-1'' = Inr pendingDonor"
    by (simp add: GetDonor_def GetState_def pendingLedger_def ensureOrgans_def pendingDonor_def)
  have submitted:
    "submitTransaction ''2024-04-01T00:00:00Z'' (TxUpdateDonorStatus ''DON-1'' ''Kidney'')
       pendingLedger = Inr ?after"
    by (simp add: UpdateDonorStatus_def GetDonor_def GetState_def ensureOrgans_def PutState_def
          pendingLedger_def organsList_def pendingDonor_def)
  have other: "TxUpdateDonorStatus ''DON-1'' ''Kidney'' \<noteq> TxInitLedger"
    by simp
  have after: "GetDonor ?after ''DON-1'' = Inr (pendingDonor\<lparr>d_organsAvailable := Some []\<rparr>)"
    by (simp add: GetDonor_def GetState_def ensureOrgans_def)
  have once: "distinct (organsList pendingDonor)"
    by (simp add: organsList_def pendingDonor_def)
  from organs_only_shrink [OF submitted other before after] once
  have "subseq (organsList (pendingDonor\<lparr>d_organsAvailable := Some []\<rparr>)) (organsList pendingDonor)"
    and "distinct (organsList (pendingDonor\<lparr>d_organsAvailable := Some []\<rparr>))"
    by blast+
  with submitted other before after once show ?thesis
    by blast
qed

subsection \<open>Creating a match\<close>

text \<open>
  Claim C1, as the code has it. With a patient waiting and a donor whose verification
  is still pending, \<open>CreateMatch\<close> succeeds: it stores the match and marks the patient
  \<^verbatim>\<open>MATCHED\<close>.
\<close>

theorem CreateMatch_unverified_donor:
  "GetDonor pendingLedger ''DON-1'' = Inr pendingDonor
   \<and> d_verificationStatus pendingDonor \<noteq> ''VERIFIED''
   \<and> CreateMatch ''2024-02-01T00:00:00Z'' ''MATCH-1'' ''PAT-1'' ''DON-1'' ''Kidney'' ''90.0''
        ''HOSP-APOLLO'' pendingLedger = Inr matchedLedger
   \<and> matchedLedger \<noteq> pendingLedger"
  by (simp add: GetDonor_def GetState_def pendingLedger_def ensureOrgans_def pendingDonor_def
        CreateMatch_def PutState_def matchedLedger_def firstMatch_def waitingPatient_def)

text \<open>
  Claim C1, amended. \<open>CreateMatch\<close> checks nothing and never fails. It stores a
  \<^verbatim>\<open>PENDING\<close> match under the identifier given; the value under the patient's key, when
  there is one, is rewritten as a patient with status \<^verbatim>\<open>MATCHED\<close>; every other key, the
  donor's among them, keeps its value.
\<close>

theorem CreateMatch_unconditional:
  "\<exists>ws'. CreateMatch now ident patientId donorId organType hlaScore approvedBy ws = Inr ws'
     \<and> GetState ws' ident =
          Some (MatchJSON \<lparr>m_id = ident, m_patientId = patientId, m_donorId = donorId,
                  m_organType = organType, m_hlaScore = hlaScore, m_status = ''PENDING'',
                  m_docType = ''match'', m_createdAt = now, m_approvedBy = approvedBy\<rparr>)
     \<and> (patientId \<noteq> ident \<longrightarrow>
          GetState ws' patientId =
            map_option (\<lambda>v. PatientJSON ((unmarshalPatient v)\<lparr>p_status := ''MATCHED''\<rparr>))
              (GetState ws patientId))
     \<and> (\<forall>key. key \<noteq> ident \<and> key \<noteq> patientId \<longrightarrow> GetState ws' key = GetState ws key)"
  by (cases "GetState ws patientId") (simp_all add: CreateMatch_def Let_def GetState_PutState)

theorem CreateMatch_unconditional_witness:
  "''PAT-1'' \<noteq> ''MATCH-1'' \<and> ''DON-1'' \<noteq> ''MATCH-1'' \<and> ''DON-1'' \<noteq> ''PAT-1''
   \<and> (\<exists>ws'. CreateMatch ''2024-02-01T00:00:00Z'' ''MATCH-1'' ''PAT-1'' ''DON-1'' ''Kidney'' ''90.0''
          ''HOSP-APOLLO'' pendingLedger = Inr ws'
        \<and> GetState ws' ''MATCH-1'' = Some (MatchJSON firstMatch)
        \<and> GetState ws' ''PAT-1'' = Some (PatientJSON (waitingPatient\<lparr>p_status := ''MATCHED''\<rparr>))
        \<and> GetState ws' ''DON-1'' = Some (DonorJSON pendingDonor))"
proof -
  have patient: "GetState pendingLedger ''PAT-1'' = Some (PatientJSON waitingPatient)"
    and donor: "GetState pendingLedger ''DON-1'' = Some (DonorJSON pendingDonor)"
    by (simp_all add: GetState_def pendingLedger_def)
  have keys: "''PAT-1'' \<noteq> ''MATCH-1''" "''DON-1'' \<noteq> ''MATCH-1''" "''DON-1'' \<noteq> ''PAT-1''"
    by simp_all
  from CreateMatch_unconditional [of "''2024-02-01T00:00:00Z''" "''MATCH-1''" "''PAT-1''"
      "''DON-1''" "''Kidney''" "''90.0''" "''HOSP-APOLLO''" pendingLedger]
  obtain ws' where
    created: "CreateMatch ''2024-02-01T00:00:00Z'' ''MATCH-1'' ''PAT-1'' ''DON-1'' ''Kidney'' ''90.0''
          ''HOSP-APOLLO'' pendingLedger = Inr ws'"
    and match: "GetState ws' ''MATCH-1'' = Some (MatchJSON firstMatch)"
    and matched: "''PAT-1'' \<noteq> ''MATCH-1'' \<longrightarrow>
          GetState ws' ''PAT-1'' =
            map_option (\<lambda>v. PatientJSON ((unmarshalPatient v)\<lparr>p_status := ''MATCHED''\<rparr>))
              (GetState pendingLedger ''PAT-1'')"
    and others: "\<forall>key. key \<noteq> ''MATCH-1'' \<and> key \<noteq> ''PAT-1'' \<longrightarrow>
          GetState ws' key = GetState pendingLedger key"
    unfolding firstMatch_def by blast
  from matched keys(1) patient
  have "GetState ws' ''PAT-1'' = Some (PatientJSON (waitingPatient\<lparr>p_status := ''MATCHED''\<rparr>))"
    by simp
  moreover from others keys(2,3) donor
  have "GetState ws' ''DON-1'' = Some (DonorJSON pendingDonor)"
    by metis
  ultimately show ?thesis
    using created match keys by blast
qed

text \<open>
  Claim C2, at the failing input. A second \<open>CreateMatch\<close> with the identifier of a
  stored match succeeds and replaces the stored match, where \<open>CreatePatient\<close> with the
  same identifier is refused.
\<close>

theorem CreateMatch_overwrites:
  "CreateMatch ''2024-02-02T00:00:00Z'' ''MATCH-1'' ''PAT-2'' ''DON-2'' ''Liver'' ''40.0''
     ''HOSP-AIIMS'' [(''MATCH-1'', MatchJSON firstMatch)] = Inr [(''MATCH-1'', MatchJSON secondMatch)]
   \<and> secondMatch \<noteq> firstMatch
   \<and> CreatePatient ''2024-02-02T00:00:00Z'' ''MATCH-1'' ''9a71'' ''O-'' ''A1'' ''Liver'' ''Qm4''
        ''HOSP-AIIMS'' [(''MATCH-1'', MatchJSON firstMatch)] = Inl (AlreadyExists ''MATCH-1'')"
  by (simp add: CreateMatch_def GetState_def PutState_def secondMatch_def firstMatch_def
        CreatePatient_def RecordExists_def)

subsection \<open>Hospitals\<close>

text \<open>
  Claim C4, as the code has it. The chaincode's listing \<open>GetAllHospitals\<close> returns
  the stored hospital whole, its password hash included.
\<close>

theorem GetAllHospitals_passwordHash:
  "GetAllHospitals apolloLedger = [apollo, closedClinic]
   \<and> h_passwordHash apollo = ''15da1cc6ebf7b7b13225c0d6d89e8cab4d40d4672c226618f1e74e5515685f2c''
   \<and> h_passwordHash closedClinic = ''c10sed''"
  by (simp add: GetAllHospitals_def GetStateByRange_def apolloLedger_def apollo_def
        closedClinic_def)

text \<open>
  Claim C4, amended. \<open>AuthenticateHospital\<close> fails when nothing is stored under the
  identifier, when the hospital is not active (whatever the hash), and when the hash
  differs; otherwise it returns the three pairs id, location and name, and no other key.
  \<open>GetAllHospitals\<close> returns each stored hospital as it is. The listing of the backend
  is the same for any password hashes, and each of its objects has the four keys id,
  name, location and isActive.
\<close>

theorem AuthenticateHospital_profile:
  "(GetState ws ident = None \<longrightarrow>
      AuthenticateHospital ws ident passwordHash = Inl (AuthenticationFailed HospitalNotFound))
   \<and> (GetHospital ws ident = Inr hospital \<and> \<not> h_isActive hospital \<longrightarrow>
      AuthenticateHospital ws ident passwordHash = Inl (AuthenticationFailed HospitalNotActive))
   \<and> (GetHospital ws ident = Inr hospital \<and> h_isActive hospital
        \<and> h_passwordHash hospital \<noteq> passwordHash \<longrightarrow>
      AuthenticateHospital ws ident passwordHash = Inl (AuthenticationFailed InvalidCredentials))
   \<and> (GetHospital ws ident = Inr hospital \<and> h_isActive hospital
        \<and> h_passwordHash hospital = passwordHash \<longrightarrow>
      AuthenticateHospital ws ident passwordHash =
        Inr [(''id'', h_id hospital), (''location'', h_location hospital),
             (''name'', h_name hospital)])
   \<and> (AuthenticateHospital ws ident passwordHash = Inr profile \<longrightarrow>
      map fst profile = [''id'', ''location'', ''name''])
   \<and> ((key, HospitalJSON listed) \<in> set (GetStateByRange ws ''HOSP-'' ''HOSP-~'') \<longrightarrow>
      listed \<in> set (GetAllHospitals ws))
   \<and> api_hospitals ws =
        safeHospitals (map (\<lambda>h. h\<lparr>h_passwordHash := []\<rparr>) (GetAllHospitals ws))
   \<and> (\<forall>object \<in> set (api_hospitals ws).
        map fst object = [''id'', ''name'', ''location'', ''isActive''])"
proof -
  have absent: "GetState ws ident = None \<longrightarrow>
      AuthenticateHospital ws ident passwordHash = Inl (AuthenticationFailed HospitalNotFound)"
    by (simp add: AuthenticateHospital_def GetHospital_def)
  have inactive: "GetHospital ws ident = Inr hospital \<and> \<not> h_isActive hospital \<longrightarrow>
      AuthenticateHospital ws ident passwordHash = Inl (AuthenticationFailed HospitalNotActive)"
    by (simp add: AuthenticateHospital_def)
  have mismatch: "GetHospital ws ident = Inr hospital \<and> h_isActive hospital
        \<and> h_passwordHash hospital \<noteq> passwordHash \<longrightarrow>
      AuthenticateHospital ws ident passwordHash = Inl (AuthenticationFailed InvalidCredentials)"
    by (simp add: AuthenticateHospital_def)
  have success: "GetHospital ws ident = Inr hospital \<and> h_isActive hospital
        \<and> h_passwordHash hospital = passwordHash \<longrightarrow>
      AuthenticateHospital ws ident passwordHash =
        Inr [(''id'', h_id hospital), (''location'', h_location hospital),
             (''name'', h_name hospital)]"
    by (simp add: AuthenticateHospital_def)
  have keys: "AuthenticateHospital ws ident passwordHash = Inr profile \<longrightarrow>
      map fst profile = [''id'', ''location'', ''name'']"
    by (auto simp add: AuthenticateHospital_def split: sum.splits if_splits)
  have whole: "(key, HospitalJSON listed) \<in> set (GetStateByRange ws ''HOSP-'' ''HOSP-~'') \<longrightarrow>
      listed \<in> set (GetAllHospitals ws)"
    unfolding GetAllHospitals_def by force
  have blind: "api_hospitals ws =
        safeHospitals (map (\<lambda>h. h\<lparr>h_passwordHash := []\<rparr>) (GetAllHospitals ws))"
    by (simp add: api_hospitals_def safeHospitals_def)
  have four: "\<forall>object \<in> set (api_hospitals ws).
        map fst object = [''id'', ''name'', ''location'', ''isActive'']"
    by (auto simp add: api_hospitals_def safeHospitals_def)
  from absent inactive mismatch success keys whole blind four show ?thesis
    by (intro conjI)
qed

theorem AuthenticateHospital_profile_witness:
  "GetHospital apolloLedger ''HOSP-APOLLO'' = Inr apollo \<and> h_isActive apollo
   \<and> AuthenticateHospital apolloLedger ''HOSP-APOLLO'' (h_passwordHash apollo) =
        Inr [(''id'', h_id apollo), (''location'', h_location apollo), (''name'', h_name apollo)]
   \<and> h_passwordHash apollo \<noteq> ''guess''
   \<and> AuthenticateHospital apolloLedger ''HOSP-APOLLO'' ''guess'' =
        Inl (AuthenticationFailed InvalidCredentials)
   \<and> GetHospital apolloLedger ''HOSP-CLOSED'' = Inr closedClinic \<and> \<not> h_isActive closedClinic
   \<and> AuthenticateHospital apolloLedger ''HOSP-CLOSED'' (h_passwordHash closedClinic) =
        Inl (AuthenticationFailed HospitalNotActive)
   \<and> GetState apolloLedger ''HOSP-NONE'' = None
   \<and> AuthenticateHospital apolloLedger ''HOSP-NONE'' ''guess'' =
        Inl (AuthenticationFailed HospitalNotFound)
   \<and> (''HOSP-APOLLO'', HospitalJSON apollo) \<in> set (GetStateByRange apolloLedger ''HOSP-'' ''HOSP-~'')
   \<and> apollo \<in> set (GetAllHospitals apolloLedger)"
proof -
  have read: "GetHospital apolloLedger ''HOSP-APOLLO'' = Inr apollo"
    and closed: "GetHospital apolloLedger ''HOSP-CLOSED'' = Inr closedClinic"
    and none: "GetState apolloLedger ''HOSP-NONE'' = None"
    by (simp_all add: GetHospital_def GetState_def apolloLedger_def)
  have active: "h_isActive apollo" and wrong: "h_passwordHash apollo \<noteq> ''guess''"
    by (simp_all add: apollo_def)
  have inactive: "\<not> h_isActive closedClinic"
    by (simp add: closedClinic_def)
  have listed: "(''HOSP-APOLLO'', HospitalJSON apollo)
                  \<in> set (GetStateByRange apolloLedger ''HOSP-'' ''HOSP-~'')"
    by (simp add: GetStateByRange_def apolloLedger_def)
  from AuthenticateHospital_profile [where ws = apolloLedger and ident = "''HOSP-APOLLO''"
      and hospital = apollo and passwordHash = "h_passwordHash apollo"
      and key = "''HOSP-APOLLO''" and listed = apollo]
    read active listed
  have accepted: "AuthenticateHospital apolloLedger ''HOSP-APOLLO'' (h_passwordHash apollo) =
        Inr [(''id'', h_id apollo), (''location'', h_location apollo), (''name'', h_name apollo)]"
    and whole: "apollo \<in> set (GetAllHospitals apolloLedger)"
    by blast+
  from AuthenticateHospital_profile [where ws = apolloLedger and ident = "''HOSP-APOLLO''"
      and hospital = apollo and passwordHash = "''guess''"]
    read active wrong
  have rejected: "AuthenticateHospital apolloLedger ''HOSP-APOLLO'' ''guess'' =
        Inl (AuthenticationFailed InvalidCredentials)"
    by blast
  from AuthenticateHospital_profile [where ws = apolloLedger and ident = "''HOSP-CLOSED''"
      and hospital = closedClinic and passwordHash = "h_passwordHash closedClinic"]
    closed inactive
  have refused: "AuthenticateHospital apolloLedger ''HOSP-CLOSED'' (h_passwordHash closedClinic) =
        Inl (AuthenticationFailed HospitalNotActive)"
    by blast
  from AuthenticateHospital_profile [where ws = apolloLedger and ident = "''HOSP-NONE''"
      and passwordHash = "''guess''"]
    none
  have unknown: "AuthenticateHospital apolloLedger ''HOSP-NONE'' ''guess'' =
        Inl (AuthenticationFailed HospitalNotFound)"
    by blast
  from read active accepted wrong rejected closed inactive refused none unknown listed whole
  show ?thesis
    by (intro conjI)
qed

subsection \<open>The matching score\<close>

lemma commonAntigens_length:
  "length (commonAntigens patientHla donorHla) \<le> length (hlaTokens patientHla)"
  by (simp add: commonAntigens_def)

lemma hlaRawScore_range:
  "0 \<le> hlaRawScore patientHla donorHla \<and> hlaRawScore patientHla donorHla \<le> 100"
proof -
  let ?c = "length (commonAntigens patientHla donorHla)"
  let ?n = "max (length (hlaTokens patientHla)) 1"
  have "real ?c \<le> real ?n"
    using commonAntigens_length [of patientHla donorHla] by simp
  moreover have "0 < real ?n" by simp
  ultimately have "real ?c / real ?n \<le> 1"
    by (simp add: divide_le_eq_1)
  then have upper: "real ?c / real ?n * 100 \<le> 1 * 100"
    by (rule mult_right_mono) simp
  have lower: "0 \<le> real ?c / real ?n * 100"
    by simp
  from lower upper show ?thesis
    unfolding hlaRawScore_def by simp
qed

text \<open>
  Claim C3. \<open>matchDonor\<close> either raises the TypeError of \<open>canReceiveFrom\<close>, which
  happens only for a patient whose blood type is a property name of \<^verbatim>\<open>Object.prototype\<close>,
  or returns an entry. In that entry a donor who is not \<^verbatim>\<open>VERIFIED\<close> is never
  compatible, and an entry that is not compatible has the score 0.
\<close>

theorem unverified_never_eligible:
  "(case matchDonor parseDate now patient donor of
      Inl err \<Rightarrow> p_bloodType patient \<in> set objectPrototypeKeys
    | Inr entry \<Rightarrow>
        (d_verificationStatus donor \<noteq> ''VERIFIED'' \<longrightarrow> \<not> e_compatible entry)
        \<and> (\<not> e_compatible entry \<longrightarrow> e_score entry = Num 0))"
  by (auto simp add: matchDonor_def canReceiveFrom_def Let_def
        split: sum.splits option.splits if_splits)

theorem unverified_never_eligible_witness:
  "d_verificationStatus pendingDonor \<noteq> ''VERIFIED''
   \<and> (\<exists>entry. matchDonor (\<lambda>createdAt. Some 0) 2592000000 waitingPatient pendingDonor = Inr entry
         \<and> \<not> e_compatible entry \<and> e_score entry = Num 0)"
proof -
  have pending: "d_verificationStatus pendingDonor \<noteq> ''VERIFIED''"
    by (simp add: pendingDonor_def)
  have blood: "canReceiveFrom ''A+'' ''O-'' = Inr True"
    by (simp add: canReceiveFrom_def bloodMap_def)
  obtain entry where
    entry: "matchDonor (\<lambda>createdAt. Some 0) 2592000000 waitingPatient pendingDonor = Inr entry"
    by (simp add: matchDonor_def Let_def waitingPatient_def pendingDonor_def blood)
  from unverified_never_eligible [where parseDate = "\<lambda>createdAt. Some 0" and now = 2592000000
      and patient = waitingPatient and donor = pendingDonor]
    entry pending
  have "\<not> e_compatible entry \<and> e_score entry = Num 0"
    by simp
  with entry pending show ?thesis
    by blast
qed

text \<open>
  Claim C6, at the failing input. For a patient and a donor whose \<^verbatim>\<open>hla\<close> fields are
  both empty, each field splits into one empty token, that token is common to both,
  and the HLA raw score is 100.
\<close>

theorem hlaRawScore_empty_fields:
  "hlaTokens '''' = [''''] \<and> commonAntigens '''' '''' = [''''] \<and> hlaRawScore '''' '''' = 100"
  by (simp add: hlaRawScore_def commonAntigens_def hlaTokens_def splitString_def trim_def)

text \<open>
  Claim C7. For a compatible entry the score is \<^verbatim>\<open>NaN\<close> when the patient's creation
  date does not parse, and otherwise the HLA raw score times 0.6, plus the waiting days
  over 30, capped at 1, times 100 times 0.3, plus 10 exactly when the two blood types
  are equal. A score that is a number never exceeds 100.
\<close>

theorem total_score:
  assumes "matchDonor parseDate now patient donor = Inr entry" and "e_compatible entry"
  shows "e_score entry =
           (case parseDate (p_createdAt patient) of
              None \<Rightarrow> NaN
            | Some t \<Rightarrow>
                Num (hlaRawScore (p_hla patient) (d_hla donor) * 0.6
                     + (min ((real_of_int (now - t) / (1000 * 60 * 60 * 24)) / 30) 1 * 100) * 0.3
                     + (if p_bloodType patient = d_bloodType donor then 10 else 0)))
         \<and> (e_score entry = Num score \<longrightarrow> score \<le> 100)"
proof -
  have formula: "e_score entry =
           (case parseDate (p_createdAt patient) of
              None \<Rightarrow> NaN
            | Some t \<Rightarrow>
                Num (hlaRawScore (p_hla patient) (d_hla donor) * 0.6
                     + (min ((real_of_int (now - t) / (1000 * 60 * 60 * 24)) / 30) 1 * 100) * 0.3
                     + (if p_bloodType patient = d_bloodType donor then 10 else 0)))"
    using assms
    by (auto simp add: matchDonor_def Let_def waitlistScore_def daysWaiting_def
          split: sum.splits if_splits option.splits)
  have bound: "e_score entry = Num score \<longrightarrow> score \<le> 100"
  proof
    assume "e_score entry = Num score"
    with formula obtain t where
      score: "score = hlaRawScore (p_hla patient) (d_hla donor) * 0.6
                     + (min ((real_of_int (now - t) / (1000 * 60 * 60 * 24)) / 30) 1 * 100) * 0.3
                     + (if p_bloodType patient = d_bloodType donor then 10 else 0)"
      by (auto split: option.splits)
    have "min ((real_of_int (now - t) / (1000 * 60 * 60 * 24)) / 30) 1 * 100 \<le> 100"
      by (simp add: min_def)
    with hlaRawScore_range [of "p_hla patient" "d_hla donor"] score show "score \<le> 100"
      by (auto split: if_splits)
  qed
  from formula bound show ?thesis
    by (rule conjI)
qed

theorem total_score_witness:
  "\<exists>entry. matchDonor (\<lambda>createdAt. Some 0) 2592000000 waitingPatient verifiedDonor = Inr entry
     \<and> e_compatible entry \<and> e_score entry = Num 90"
proof -
  have tokens: "hlaTokens ''A2, B35'' = [''A2'', ''B35'']"
    by (simp add: hlaTokens_def splitString_def trim_def isWhiteSpace_def)
  have hla: "hlaRawScore ''A2, B35'' ''A2, B35'' = 100"
    by (simp add: hlaRawScore_def commonAntigens_def tokens)
  have blood: "canReceiveFrom ''A+'' ''O-'' = Inr True"
    by (simp add: canReceiveFrom_def bloodMap_def)
  obtain entry where
    entry: "matchDonor (\<lambda>createdAt. Some 0) 2592000000 waitingPatient verifiedDonor = Inr entry"
    and compatible: "e_compatible entry"
    by (simp add: matchDonor_def Let_def waitingPatient_def verifiedDonor_def pendingDonor_def
          blood organsList_def)
  from total_score [OF entry compatible] have "e_score entry = Num 90"
    by (simp add: waitingPatient_def verifiedDonor_def pendingDonor_def hla)
  with entry compatible show ?thesis
    by blast
qed

end
